theory Spec2Isabelle
  imports Complex_Main
begin

section \<open>JavaScript values\<close>

text \<open>
  The adapter passes JSON values through without computing on them; TypeScript
  interfaces are erased at run time, so requests, envelopes and tool arguments are
  plain objects. A number is a JSON number (a finite decimal), an object is the list
  of its own properties in insertion order.
\<close>

datatype jsval =
    JUndefined
  | JNull
  | JBool bool
  | JNum rat
  | JStr string
  | JArr "jsval list"
  | JObj "(string \<times> jsval) list"

text \<open>Truthiness, as \<^verbatim>\<open>||\<close>, \<^verbatim>\<open>&&\<close> and \<^verbatim>\<open>?:\<close> test it.\<close>

fun truthy :: "jsval \<Rightarrow> bool" where
  "truthy JUndefined = False"
| "truthy JNull = False"
| "truthy (JBool b) = b"
| "truthy (JNum n) = (n \<noteq> 0)"
| "truthy (JStr s) = (s \<noteq> [])"
| "truthy (JArr xs) = True"
| "truthy (JObj fs) = True"

text \<open>\<^verbatim>\<open>a || b\<close>\<close>

definition orElse :: "jsval \<Rightarrow> jsval \<Rightarrow> jsval" where
  "orElse a b = (if truthy a then a else b)"

text \<open>\<^verbatim>\<open>a !== false\<close>\<close>

definition notFalse :: "jsval \<Rightarrow> jsval" where
  "notFalse a = JBool (a \<noteq> JBool False)"

text \<open>
  Property read \<^verbatim>\<open>v.k\<close> for a key that no prototype defines (every key read
  in this program): the own property of an object, \<^verbatim>\<open>undefined\<close> on an array
  or a primitive. On \<^verbatim>\<open>null\<close> and \<^verbatim>\<open>undefined\<close> the read throws unless it is
  written \<^verbatim>\<open>v?.k\<close>; the places where that can happen use \<open>nullish\<close> first.
\<close>

fun getProp :: "jsval \<Rightarrow> string \<Rightarrow> jsval" where
  "getProp (JObj fs) k = (case map_of fs k of Some v \<Rightarrow> v | None \<Rightarrow> JUndefined)"
| "getProp v k = JUndefined"

fun nullish :: "jsval \<Rightarrow> bool" where
  "nullish JUndefined = True"
| "nullish JNull = True"
| "nullish v = False"

section \<open>Errors\<close>

datatype ErrorCode = InternalError | InvalidParams

text \<open>
  What a \<^verbatim>\<open>throw\<close> carries. \<open>AxiosError msg resp\<close> is the HTTP client's error:
  \<open>resp\<close> is the body of a non-2xx answer (\<^verbatim>\<open>error.response.data\<close>), absent
  when no answer arrived (timeout, connection failure).
\<close>

datatype js_error =
    AxiosError string "jsval option"
  | TypeError string
  | ReferenceError string
  | Error string
  | McpError ErrorCode string

text \<open>\<^verbatim>\<open>error.message\<close>\<close>

fun message :: "js_error \<Rightarrow> string" where
  "message (AxiosError m r) = m"
| "message (TypeError m) = m"
| "message (ReferenceError m) = m"
| "message (Error m) = m"
| "message (McpError c m) = m"

text \<open>\<^verbatim>\<open>error.response?.data?.detail\<close>\<close>

fun response_detail :: "js_error \<Rightarrow> jsval" where
  "response_detail (AxiosError m (Some d)) = getProp d ''detail''"
| "response_detail e = JUndefined"

section \<open>The process: upstream calls, side channel, log file\<close>

datatype http_method = GET | POST

record http_request =
  baseURL :: string
  req_method :: http_method
  url :: string
  params :: "(string \<times> jsval) list"
  body :: jsval
  headers :: "(string \<times> string) list"
  timeout :: rat

text \<open>
  \<open>params\<close> and \<open>body\<close> are the values handed to the HTTP client; how it writes
  them on the wire (where a property whose value is \<^verbatim>\<open>undefined\<close> is omitted) is
  not part of the model.

  The remote service: what it answers to a request. \<open>HttpOk d\<close> is a 2xx answer with
  body \<open>d\<close>; \<open>HttpFail msg resp\<close> makes the client throw \<open>AxiosError msg resp\<close>.
\<close>

datatype http_result = HttpOk jsval | HttpFail string "jsval option"

type_synonym upstream = "http_request \<Rightarrow> http_result"

text \<open>What the logger is handed as its optional second argument.\<close>

datatype log_data = NoData | Data jsval | Thrown js_error

record log_entry =
  level :: string
  entry_message :: string
  entry_data :: log_data

text \<open>
  The observable state of the process: the upstream calls issued so far, the lines
  written to the protocol channel (standard output) and to the side error channel
  (standard error), the lines of \<^verbatim>\<open>camino-mcp.log\<close>, whether that file can be
  appended to, and the logger's static \<^verbatim>\<open>debugMode\<close>.
\<close>

record world =
  calls :: "http_request list"
  stdout :: "string list"
  stderr :: "string list"
  logFile :: "log_entry list"
  logWritable :: bool
  debugMode :: bool

type_synonym 'a io = "world \<Rightarrow> (js_error + 'a) \<times> world"

text \<open>\<^verbatim>\<open>console.error(a, b)\<close> with two strings: one line on standard error.\<close>

definition console_error :: "string \<Rightarrow> string \<Rightarrow> world \<Rightarrow> world" where
  "console_error a b w = w\<lparr>stderr := stderr w @ [a @ '' '' @ b]\<rparr>"

section \<open>Logger (utils/logger.ts)\<close>

fun data_truthy :: "log_data \<Rightarrow> bool" where
  "data_truthy NoData = False"
| "data_truthy (Data v) = truthy v"
| "data_truthy (Thrown e) = True"

text \<open>
  \<^verbatim>\<open>writeToFile\<close>: one entry appended (the time stamp is left out of the model);
  a failing append is swallowed. \<^verbatim>\<open>data: data || undefined\<close>.
\<close>

definition writeToFile :: "string \<Rightarrow> string \<Rightarrow> log_data \<Rightarrow> world \<Rightarrow> world" where
  "writeToFile lvl msg d w =
     (if logWritable w
      then w\<lparr>logFile := logFile w @
             [\<lparr>level = lvl, entry_message = msg,
               entry_data = (if data_truthy d then d else NoData)\<rparr>]\<rparr>
      else w)"

definition Logger_debug :: "string \<Rightarrow> log_data \<Rightarrow> world \<Rightarrow> world" where
  "Logger_debug msg d w = (if debugMode w then writeToFile ''DEBUG'' msg d w else w)"

definition Logger_info :: "string \<Rightarrow> log_data \<Rightarrow> world \<Rightarrow> world" where
  "Logger_info msg d w = writeToFile ''INFO'' msg d w"

text \<open>
  \<^verbatim>\<open>Logger.error(message, error?)\<close>; every caller passes what a \<^verbatim>\<open>catch\<close> bound
  (so \<^verbatim>\<open>error instanceof Error ? error.message : String(error)\<close> is its message) or
  nothing.
\<close>

definition Logger_error :: "string \<Rightarrow> js_error option \<Rightarrow> world \<Rightarrow> world" where
  "Logger_error msg err w =
     (let w1 = writeToFile ''ERROR'' msg (case err of None \<Rightarrow> NoData | Some e \<Rightarrow> Thrown e) w in
      case err of
        None \<Rightarrow> w1
      | Some e \<Rightarrow>
          if debugMode w1
          then w1\<lparr>stderr := stderr w1 @ [''[MCP Error] '' @ msg @ '': '' @ message e]\<rparr>
          else w1)"

section \<open>The upstream client (services/camino-api.ts)\<close>

record CaminoApiConfig =
  baseUrl :: string
  apiKey :: string
  config_timeout :: "rat option"

text \<open>What \<^verbatim>\<open>axios.create\<close> keeps: the defaults of every request of the instance.\<close>

record AxiosInstance =
  inst_baseURL :: string
  inst_timeout :: rat
  inst_headers :: "(string \<times> string) list"

record CaminoApiService =
  client :: AxiosInstance
  service_apiKey :: string

text \<open>The constructor. \<^verbatim>\<open>timeout: config.timeout || 30000\<close>.\<close>

definition new_CaminoApiService :: "CaminoApiConfig \<Rightarrow> CaminoApiService" where
  "new_CaminoApiService config =
     \<lparr>client =
        \<lparr>inst_baseURL = baseUrl config,
         inst_timeout =
           (case config_timeout config of
              None \<Rightarrow> 30000
            | Some t \<Rightarrow> if t \<noteq> 0 then t else 30000),
         inst_headers =
           [(''Content-Type'', ''application/json''),
            (''Accept'', ''application/json''),
            (''X-API-Key'', apiKey config)]\<rparr>,
      service_apiKey = apiKey config\<rparr>"

text \<open>
  One request of the instance: it is recorded, the remote answers, and a failure is
  thrown. \<^verbatim>\<open>client.get(url, {params})\<close> and \<^verbatim>\<open>client.post(url, data, {params})\<close>
  return \<^verbatim>\<open>response\<close>; the operations read only \<^verbatim>\<open>response.data\<close>, which is
  the value returned here.
\<close>

definition axios_request ::
  "AxiosInstance \<Rightarrow> upstream \<Rightarrow> http_method \<Rightarrow> string \<Rightarrow> (string \<times> jsval) list \<Rightarrow> jsval
     \<Rightarrow> jsval io" where
  "axios_request c up m u ps b w =
     (let req = \<lparr>baseURL = inst_baseURL c, req_method = m, url = u, params = ps, body = b,
                 headers = inst_headers c, timeout = inst_timeout c\<rparr>;
          w1 = w\<lparr>calls := calls w @ [req]\<rparr>
      in case up req of
           HttpOk d \<Rightarrow> (Inr d, w1)
         | HttpFail msg resp \<Rightarrow> (Inl (AxiosError msg resp), w1))"

definition axios_get ::
  "AxiosInstance \<Rightarrow> upstream \<Rightarrow> string \<Rightarrow> (string \<times> jsval) list \<Rightarrow> jsval io" where
  "axios_get c up u ps = axios_request c up GET u ps JUndefined"

definition axios_post ::
  "AxiosInstance \<Rightarrow> upstream \<Rightarrow> string \<Rightarrow> jsval \<Rightarrow> (string \<times> jsval) list \<Rightarrow> jsval io" where
  "axios_post c up u b ps = axios_request c up POST u ps b"

text \<open>\<^verbatim>\<open>{ success: true, data: response.data }\<close>\<close>

definition success_envelope :: "jsval \<Rightarrow> jsval" where
  "success_envelope d = JObj [(''success'', JBool True), (''data'', d)]"

text \<open>
  \<^verbatim>\<open>{ success: false, error: error.response?.data?.detail || error.message, data }\<close>
\<close>

definition failure_envelope :: "js_error \<Rightarrow> jsval \<Rightarrow> jsval" where
  "failure_envelope e d =
     JObj [(''success'', JBool False),
           (''error'', orElse (response_detail e) (JStr (message e))),
           (''data'', d)]"

definition executeQuery :: "CaminoApiService \<Rightarrow> upstream \<Rightarrow> jsval \<Rightarrow> jsval io" where
  "executeQuery svc up request w =
     (case axios_get (client svc) up ''/query''
             [(''q'', getProp request ''query''),
              (''lat'', getProp request ''latitude''),
              (''lon'', getProp request ''longitude''),
              (''radius'', getProp request ''radius''),
              (''rank'', getProp request ''rank''),
              (''limit'', getProp request ''limit''),
              (''answer'', getProp request ''generate_answer'')] w of
        (Inr d, w1) \<Rightarrow> (Inr (success_envelope d), w1)
      | (Inl e, w1) \<Rightarrow>
          (Inr (failure_envelope e
                  (JObj [(''query'', getProp request ''query''),
                         (''results'', JArr []),
                         (''total_found'', JNum 0),
                         (''ai_ranked'', JBool False)])),
           console_error ''Query execution failed:'' (message e) w1))"

definition executeSearch :: "CaminoApiService \<Rightarrow> upstream \<Rightarrow> jsval \<Rightarrow> jsval io" where
  "executeSearch svc up request w =
     (case axios_post (client svc) up ''/search'' JNull
             [(''q'', getProp request ''query'')] w of
        (Inr d, w1) \<Rightarrow> (Inr (success_envelope d), w1)
      | (Inl e, w1) \<Rightarrow>
          (Inr (failure_envelope e
                  (JObj [(''query'', getProp request ''query''),
                         (''results'', JArr []),
                         (''total_found'', JNum 0),
                         (''source'', JStr ''nominatim'')])),
           console_error ''Search execution failed:'' (message e) w1))"

definition calculateSpatialRelationship ::
  "CaminoApiService \<Rightarrow> upstream \<Rightarrow> jsval \<Rightarrow> jsval io" where
  "calculateSpatialRelationship svc up request w =
     (let requestBody =
            JObj [(''start'', JObj [(''lat'', getProp request ''start_latitude''),
                                    (''lon'', getProp request ''start_longitude'')]),
                  (''end'', JObj [(''lat'', getProp request ''end_latitude''),
                                  (''lon'', getProp request ''end_longitude'')]),
                  (''include'', getProp request ''include'')]
      in case axios_post (client svc) up ''/relationship'' requestBody [] w of
           (Inr d, w1) \<Rightarrow> (Inr (success_envelope d), w1)
         | (Inl e, w1) \<Rightarrow>
             (Inr (failure_envelope e
                     (JObj [(''start_location'',
                               JObj [(''lat'', getProp request ''start_latitude''),
                                     (''lon'', getProp request ''start_longitude'')]),
                            (''end_location'',
                               JObj [(''lat'', getProp request ''end_latitude''),
                                     (''lon'', getProp request ''end_longitude'')])])),
              console_error ''Spatial relationship calculation failed:'' (message e) w1))"

text \<open>
  The module's import list (lines 1 to 11 of camino-api.ts) is \<^verbatim>\<open>axios\<close>,
  \<^verbatim>\<open>AxiosInstance\<close> and the request, response and config types. The last three
  operations call \<^verbatim>\<open>Logger.error\<close> first thing in their \<^verbatim>\<open>catch\<close> blocks, and no
  declaration or import of the module binds \<^verbatim>\<open>Logger\<close>: \<open>module_Logger\<close> is what
  the name resolves to there. Evaluating an unbound name throws a
  \<^verbatim>\<open>ReferenceError\<close>, out of the \<^verbatim>\<open>catch\<close> block and so out of the operation.
\<close>

definition module_Logger :: "(string \<Rightarrow> js_error option \<Rightarrow> world \<Rightarrow> world) option" where
  "module_Logger = None"

text \<open>
  \<^verbatim>\<open>catch (error) { Logger.error(msg, error); return { success: false, ... } }\<close>
\<close>

definition catch_logged :: "string \<Rightarrow> js_error \<Rightarrow> jsval \<Rightarrow> jsval io" where
  "catch_logged msg e fallback w =
     (case module_Logger of
        None \<Rightarrow> (Inl (ReferenceError ''Logger is not defined''), w)
      | Some logger_error \<Rightarrow> (Inr (failure_envelope e fallback), logger_error msg (Some e) w))"

definition getPlaceContext :: "CaminoApiService \<Rightarrow> upstream \<Rightarrow> jsval \<Rightarrow> jsval io" where
  "getPlaceContext svc up request w =
     (let requestBody =
            JObj [(''location'', JObj [(''lat'', getProp request ''latitude''),
                                       (''lon'', getProp request ''longitude'')]),
                  (''radius'', getProp request ''radius''),
                  (''context'', getProp request ''context'')]
      in case axios_post (client svc) up ''/context'' requestBody [] w of
           (Inr d, w1) \<Rightarrow> (Inr (success_envelope d), w1)
         | (Inl e, w1) \<Rightarrow>
             catch_logged ''Place context retrieval failed'' e
               (JObj [(''location'', JObj [(''lat'', getProp request ''latitude''),
                                           (''lon'', getProp request ''longitude'')]),
                      (''relevant_places'', JObj []),
                      (''total_places_found'', JNum 0)]) w1)"

text \<open>
  \<^verbatim>\<open>request.waypoints.map(wp => ({ lat: wp.lat, lon: wp.lon, purpose: wp.purpose }))\<close>.
  Only an array has \<^verbatim>\<open>map\<close>, and reading a property of a \<^verbatim>\<open>null\<close> element
  throws; both are \<^verbatim>\<open>TypeError\<close>s (their messages are shortened here).
\<close>

definition wire_waypoint :: "jsval \<Rightarrow> jsval" where
  "wire_waypoint wp =
     JObj [(''lat'', getProp wp ''lat''),
           (''lon'', getProp wp ''lon''),
           (''purpose'', getProp wp ''purpose'')]"

fun map_waypoints :: "jsval \<Rightarrow> js_error + jsval" where
  "map_waypoints (JArr wps) =
     (if list_ex nullish wps
      then Inl (TypeError ''Cannot read properties of null or undefined'')
      else Inr (JArr (map wire_waypoint wps)))"
| "map_waypoints v =
     (if nullish v
      then Inl (TypeError ''Cannot read properties of null or undefined'')
      else Inl (TypeError ''request.waypoints.map is not a function''))"

definition journey_fallback :: "jsval \<Rightarrow> jsval" where
  "journey_fallback request =
     JObj [(''waypoints'', getProp request ''waypoints''), (''feasible'', JBool False)]"

definition planJourney :: "CaminoApiService \<Rightarrow> upstream \<Rightarrow> jsval \<Rightarrow> jsval io" where
  "planJourney svc up request w =
     (case map_waypoints (getProp request ''waypoints'') of
        Inl e \<Rightarrow> catch_logged ''Journey planning failed'' e (journey_fallback request) w
      | Inr wps \<Rightarrow>
          (let requestBody =
                 JObj [(''waypoints'', wps),
                       (''constraints'',
                          JObj [(''transport'',
                                   orElse (getProp request ''transport_mode'') (JStr ''walking'')),
                                (''time_budget'', getProp request ''time_budget'')])]
           in case axios_post (client svc) up ''/journey'' requestBody [] w of
                (Inr d, w1) \<Rightarrow> (Inr (success_envelope d), w1)
              | (Inl e, w1) \<Rightarrow>
                  catch_logged ''Journey planning failed'' e (journey_fallback request) w1))"

definition planRoute :: "CaminoApiService \<Rightarrow> upstream \<Rightarrow> jsval \<Rightarrow> jsval io" where
  "planRoute svc up request w =
     (case axios_get (client svc) up ''/route''
             [(''start_lat'', getProp request ''start_latitude''),
              (''start_lon'', getProp request ''start_longitude''),
              (''end_lat'', getProp request ''end_latitude''),
              (''end_lon'', getProp request ''end_longitude''),
              (''mode'', getProp request ''mode''),
              (''include_geometry'', getProp request ''include_geometry'')] w of
        (Inr d, w1) \<Rightarrow> (Inr (success_envelope d), w1)
      | (Inl e, w1) \<Rightarrow>
          catch_logged ''Route planning failed'' e
            (JObj [(''start_location'',
                      JObj [(''lat'', getProp request ''start_latitude''),
                            (''lon'', getProp request ''start_longitude'')]),
                   (''end_location'',
                      JObj [(''lat'', getProp request ''end_latitude''),
                            (''lon'', getProp request ''end_longitude'')]),
                   (''mode'', orElse (getProp request ''mode'') (JStr ''car''))]) w1)"

section \<open>The stdio-bound server (server.ts)\<close>

text \<open>
  A tool descriptor of \<^verbatim>\<open>getTools()\<close>: its name and its JSON input schema (the
  \<^verbatim>\<open>description\<close> strings are left out). The server hands the descriptors to the
  host on \<^verbatim>\<open>tools/list\<close> and does nothing else with them.
\<close>

record Tool =
  name :: string
  inputSchema :: jsval

definition schema_type :: "string \<Rightarrow> jsval" where
  "schema_type t = JObj [(''type'', JStr t)]"

definition object_schema :: "(string \<times> jsval) list \<Rightarrow> string list \<Rightarrow> jsval" where
  "object_schema props req =
     JObj [(''type'', JStr ''object''),
           (''properties'', JObj props),
           (''required'', JArr (map JStr req))]"

definition string_enum :: "string list \<Rightarrow> jsval" where
  "string_enum vs = JObj [(''type'', JStr ''string''), (''enum'', JArr (map JStr vs))]"

definition getTools :: "Tool list" where
  "getTools =
     [\<lparr>name = ''camino_query'',
       inputSchema = object_schema
         [(''query'', schema_type ''string''),
          (''latitude'', schema_type ''number''),
          (''longitude'', schema_type ''number''),
          (''radius'', JObj [(''type'', JStr ''integer''),
                             (''minimum'', JNum 100), (''maximum'', JNum 50000)]),
          (''limit'', JObj [(''type'', JStr ''integer''),
                            (''minimum'', JNum 1), (''maximum'', JNum 100)]),
          (''rank'', schema_type ''boolean''),
          (''generate_answer'', schema_type ''boolean'')]
         [''query'']\<rparr>,
      \<lparr>name = ''camino_search'',
       inputSchema = object_schema [(''query'', schema_type ''string'')] [''query'']\<rparr>,
      \<lparr>name = ''camino_spatial_relationship'',
       inputSchema = object_schema
         [(''start_latitude'', schema_type ''number''),
          (''start_longitude'', schema_type ''number''),
          (''end_latitude'', schema_type ''number''),
          (''end_longitude'', schema_type ''number''),
          (''include'',
             JObj [(''type'', JStr ''array''),
                   (''items'', string_enum
                      [''distance'', ''direction'', ''travel_time'', ''description''])])]
         [''start_latitude'', ''start_longitude'', ''end_latitude'', ''end_longitude'']\<rparr>,
      \<lparr>name = ''camino_place_context'',
       inputSchema = object_schema
         [(''latitude'', schema_type ''number''),
          (''longitude'', schema_type ''number''),
          (''radius'', schema_type ''string''),
          (''context'', schema_type ''string'')]
         [''latitude'', ''longitude'']\<rparr>,
      \<lparr>name = ''camino_journey_planning'',
       inputSchema = object_schema
         [(''waypoints'',
             JObj [(''type'', JStr ''array''),
                   (''items'', object_schema
                      [(''latitude'', schema_type ''number''),
                       (''longitude'', schema_type ''number''),
                       (''purpose'', schema_type ''string'')]
                      [''latitude'', ''longitude'', ''purpose'']),
                   (''minItems'', JNum 2)]),
          (''transport_mode'', string_enum [''walking'', ''driving'', ''cycling'']),
          (''time_budget'', schema_type ''string'')]
         [''waypoints'']\<rparr>,
      \<lparr>name = ''camino_route_planning'',
       inputSchema = object_schema
         [(''start_latitude'', schema_type ''number''),
          (''start_longitude'', schema_type ''number''),
          (''end_latitude'', schema_type ''number''),
          (''end_longitude'', schema_type ''number''),
          (''mode'', string_enum [''car'', ''bike'', ''foot'']),
          (''include_geometry'', schema_type ''boolean'')]
         [''start_latitude'', ''start_longitude'', ''end_latitude'', ''end_longitude'']\<rparr>]"

text \<open>Sequencing of \<^verbatim>\<open>await\<close>ed calls: a throw ends the sequence.\<close>

definition return_io :: "'a \<Rightarrow> 'a io" where
  "return_io x w = (Inr x, w)"

definition throw_io :: "js_error \<Rightarrow> 'a io" where
  "throw_io e w = (Inl e, w)"

definition bind_io :: "'a io \<Rightarrow> ('a \<Rightarrow> 'b io) \<Rightarrow> 'b io" where
  "bind_io m f w = (case m w of (Inl e, w1) \<Rightarrow> (Inl e, w1) | (Inr x, w1) \<Rightarrow> f x w1)"

text \<open>\<^verbatim>\<open>response.success ? response.data : response\<close>\<close>

definition unwrap :: "jsval \<Rightarrow> jsval" where
  "unwrap response =
     (if truthy (getProp response ''success'') then getProp response ''data'' else response)"

text \<open>The \<^verbatim>\<open>const request = { ... }\<close> of each handler, then the handler.\<close>

definition queryToolRequest :: "jsval \<Rightarrow> jsval" where
  "queryToolRequest args =
     JObj [(''query'', getProp args ''query''),
           (''latitude'', getProp args ''latitude''),
           (''longitude'', getProp args ''longitude''),
           (''radius'', orElse (getProp args ''radius'') (JNum 1000)),
           (''rank'', notFalse (getProp args ''rank'')),
           (''limit'', orElse (getProp args ''limit'') (JNum 20)),
           (''generate_answer'', notFalse (getProp args ''generate_answer''))]"

definition executeQueryTool :: "CaminoApiService \<Rightarrow> upstream \<Rightarrow> jsval \<Rightarrow> jsval io" where
  "executeQueryTool caminoApi up args =
     bind_io (executeQuery caminoApi up (queryToolRequest args))
       (\<lambda>response. return_io (unwrap response))"

definition searchToolRequest :: "jsval \<Rightarrow> jsval" where
  "searchToolRequest args = JObj [(''query'', getProp args ''query'')]"

definition executeSearchTool :: "CaminoApiService \<Rightarrow> upstream \<Rightarrow> jsval \<Rightarrow> jsval io" where
  "executeSearchTool caminoApi up args =
     bind_io (executeSearch caminoApi up (searchToolRequest args))
       (\<lambda>response. return_io (unwrap response))"

definition spatialRelationshipToolRequest :: "jsval \<Rightarrow> jsval" where
  "spatialRelationshipToolRequest args =
     JObj [(''start_latitude'', getProp args ''start_latitude''),
           (''start_longitude'', getProp args ''start_longitude''),
           (''end_latitude'', getProp args ''end_latitude''),
           (''end_longitude'', getProp args ''end_longitude''),
           (''include'',
              orElse (getProp args ''include'')
                (JArr [JStr ''distance'', JStr ''direction'', JStr ''travel_time'',
                       JStr ''description'']))]"

definition executeSpatialRelationshipTool ::
  "CaminoApiService \<Rightarrow> upstream \<Rightarrow> jsval \<Rightarrow> jsval io" where
  "executeSpatialRelationshipTool caminoApi up args =
     bind_io (calculateSpatialRelationship caminoApi up (spatialRelationshipToolRequest args))
       (\<lambda>response. return_io (unwrap response))"

definition placeContextToolRequest :: "jsval \<Rightarrow> jsval" where
  "placeContextToolRequest args =
     JObj [(''latitude'', getProp args ''latitude''),
           (''longitude'', getProp args ''longitude''),
           (''radius'', orElse (getProp args ''radius'') (JStr ''500m'')),
           (''context'', getProp args ''context'')]"

definition executePlaceContextTool :: "CaminoApiService \<Rightarrow> upstream \<Rightarrow> jsval \<Rightarrow> jsval io" where
  "executePlaceContextTool caminoApi up args =
     bind_io (getPlaceContext caminoApi up (placeContextToolRequest args))
       (\<lambda>response. return_io (unwrap response))"

definition journeyPlanningToolRequest :: "jsval \<Rightarrow> jsval" where
  "journeyPlanningToolRequest args =
     JObj [(''waypoints'', getProp args ''waypoints''),
           (''transport_mode'', orElse (getProp args ''transport_mode'') (JStr ''walking'')),
           (''time_budget'', getProp args ''time_budget'')]"

definition executeJourneyPlanningTool ::
  "CaminoApiService \<Rightarrow> upstream \<Rightarrow> jsval \<Rightarrow> jsval io" where
  "executeJourneyPlanningTool caminoApi up args =
     bind_io (planJourney caminoApi up (journeyPlanningToolRequest args))
       (\<lambda>response. return_io (unwrap response))"

definition routePlanningToolRequest :: "jsval \<Rightarrow> jsval" where
  "routePlanningToolRequest args =
     JObj [(''start_latitude'', getProp args ''start_latitude''),
           (''start_longitude'', getProp args ''start_longitude''),
           (''end_latitude'', getProp args ''end_latitude''),
           (''end_longitude'', getProp args ''end_longitude''),
           (''mode'', orElse (getProp args ''mode'') (JStr ''car'')),
           (''include_geometry'', orElse (getProp args ''include_geometry'') (JBool False))]"

definition executeRoutePlanningTool ::
  "CaminoApiService \<Rightarrow> upstream \<Rightarrow> jsval \<Rightarrow> jsval io" where
  "executeRoutePlanningTool caminoApi up args =
     bind_io (planRoute caminoApi up (routePlanningToolRequest args))
       (\<lambda>response. return_io (unwrap response))"

text \<open>
  \<^verbatim>\<open>executeTool\<close>: the debug line, then the \<^verbatim>\<open>switch\<close> on the name (strict
  equality of strings), whose \<^verbatim>\<open>default\<close> throws.
\<close>

definition executeTool :: "CaminoApiService \<Rightarrow> upstream \<Rightarrow> string \<Rightarrow> jsval \<Rightarrow> jsval io" where
  "executeTool caminoApi up nm args w =
     (let w1 = Logger_debug ''Executing tool''
                 (Data (JObj [(''name'', JStr nm), (''args'', args)])) w
      in if nm = ''camino_query'' then executeQueryTool caminoApi up args w1
         else if nm = ''camino_search'' then executeSearchTool caminoApi up args w1
         else if nm = ''camino_spatial_relationship''
           then executeSpatialRelationshipTool caminoApi up args w1
         else if nm = ''camino_place_context'' then executePlaceContextTool caminoApi up args w1
         else if nm = ''camino_journey_planning''
           then executeJourneyPlanningTool caminoApi up args w1
         else if nm = ''camino_route_planning'' then executeRoutePlanningTool caminoApi up args w1
         else throw_io (Error (''Unknown tool: '' @ nm)) w1)"

text \<open>
  One block of a tool result, \<^verbatim>\<open>{ type: 'text', text: JSON.stringify(result, null, 2) }\<close>,
  represented by the value that is serialised.
\<close>

datatype content = TextJson jsval

text \<open>
  The handler of \<^verbatim>\<open>tools/call\<close>. \<^verbatim>\<open>request.params\<close> holds the name and the
  optional argument object; the handler reads nothing else and checks nothing.
\<close>

definition callToolHandler ::
  "CaminoApiService \<Rightarrow> upstream \<Rightarrow> string \<Rightarrow> jsval \<Rightarrow> content list io" where
  "callToolHandler caminoApi up nm args w =
     (case executeTool caminoApi up nm (orElse args (JObj [])) w of
        (Inr result, w1) \<Rightarrow> (Inr [TextJson result], w1)
      | (Inl error, w1) \<Rightarrow>
          (Inl (McpError InternalError (''Tool execution failed: '' @ message error)), w1))"

text \<open>The constructor of \<^verbatim>\<open>CaminoMCPServer\<close> builds its client from two strings.\<close>

definition CaminoMCPServer_caminoApi :: "string \<Rightarrow> string \<Rightarrow> CaminoApiService" where
  "CaminoMCPServer_caminoApi apiBaseUrl key =
     new_CaminoApiService \<lparr>baseUrl = apiBaseUrl, apiKey = key, config_timeout = None\<rparr>"

section \<open>The session-factory server (index.ts)\<close>

text \<open>
  The factory registers each tool with \<^verbatim>\<open>server.tool(name, description, shape,
  callback)\<close>, where \<^verbatim>\<open>shape\<close> is built with the validation library. The part of
  that library the six shapes use: \<^verbatim>\<open>z.string()\<close>, \<^verbatim>\<open>z.number()\<close> with
  \<^verbatim>\<open>.min\<close> and \<^verbatim>\<open>.max\<close> (inclusive), \<^verbatim>\<open>z.boolean()\<close>, \<^verbatim>\<open>z.enum\<close>,
  \<^verbatim>\<open>z.array(el)\<close> with \<^verbatim>\<open>.min\<close>, \<^verbatim>\<open>z.object\<close> (unknown keys are dropped),
  \<^verbatim>\<open>.optional()\<close> and \<^verbatim>\<open>.default(d)\<close>; \<^verbatim>\<open>.describe\<close> changes nothing.
  \<open>zparse\<close> is the parse: \<open>None\<close> when the value is refused, the parsed value
  otherwise.
\<close>

datatype zschema =
    ZString
  | ZNumber "rat option" "rat option"
  | ZBoolean
  | ZEnum "string list"
  | ZArray zschema "nat option"
  | ZObject "(string \<times> zschema) list"
  | ZOptional zschema
  | ZDefault zschema jsval

fun zparse :: "zschema \<Rightarrow> jsval \<Rightarrow> jsval option" where
  "zparse ZString v = (case v of JStr s \<Rightarrow> Some v | _ \<Rightarrow> None)"
| "zparse (ZNumber lo hi) v =
     (case v of
        JNum n \<Rightarrow>
          if (case lo of None \<Rightarrow> True | Some l \<Rightarrow> l \<le> n) \<and>
             (case hi of None \<Rightarrow> True | Some h \<Rightarrow> n \<le> h)
          then Some v else None
      | _ \<Rightarrow> None)"
| "zparse ZBoolean v = (case v of JBool b \<Rightarrow> Some v | _ \<Rightarrow> None)"
| "zparse (ZEnum vs) v =
     (case v of JStr s \<Rightarrow> if List.member vs s then Some v else None | _ \<Rightarrow> None)"
| "zparse (ZArray el mn) v =
     (case v of
        JArr xs \<Rightarrow>
          (case those (map (zparse el) xs) of
             None \<Rightarrow> None
           | Some ys \<Rightarrow>
               if (case mn of None \<Rightarrow> True | Some m \<Rightarrow> m \<le> length xs)
               then Some (JArr ys) else None)
      | _ \<Rightarrow> None)"
| "zparse (ZObject shape) v =
     (case v of
        JObj fs \<Rightarrow>
          (case those (map (\<lambda>(k, s). map_option (Pair k) (zparse s (getProp v k))) shape) of
             None \<Rightarrow> None
           | Some kvs \<Rightarrow>
               Some (JObj (filter (\<lambda>(k, y). y \<noteq> JUndefined \<or> map_of fs k \<noteq> None) kvs)))
      | _ \<Rightarrow> None)"
| "zparse (ZOptional s) v = (if v = JUndefined then Some JUndefined else zparse s v)"
| "zparse (ZDefault s d) v = (if v = JUndefined then zparse s d else zparse s v)"

text \<open>
  A registration, and a call of it: the arguments are parsed against the shape, and
  the callback runs on the parsed value only; refused arguments are answered with an
  invalid-parameters error (the library's text of the refusal is left out).
\<close>

record RegisteredTool =
  tool_name :: string
  paramsSchema :: "(string \<times> zschema) list"
  callback :: "jsval \<Rightarrow> content list io"

definition call_registered :: "RegisteredTool \<Rightarrow> jsval \<Rightarrow> content list io" where
  "call_registered t args w =
     (case zparse (ZObject (paramsSchema t)) args of
        None \<Rightarrow> (Inl (McpError InvalidParams (''Invalid arguments for tool '' @ tool_name t)), w)
      | Some parsed \<Rightarrow> callback t parsed w)"

text \<open>
  Every callback copies the parsed fields into \<^verbatim>\<open>request\<close>, awaits the client's
  operation and returns one text block of \<^verbatim>\<open>response.success ? response.data :
  response\<close>.
\<close>

definition copy_fields :: "string list \<Rightarrow> jsval \<Rightarrow> jsval" where
  "copy_fields ks parsed = JObj (map (\<lambda>k. (k, getProp parsed k)) ks)"

definition tool_callback :: "(jsval \<Rightarrow> jsval io) \<Rightarrow> string list \<Rightarrow> jsval \<Rightarrow> content list io" where
  "tool_callback operation ks parsed =
     bind_io (operation (copy_fields ks parsed))
       (\<lambda>response. return_io [TextJson (unwrap response)])"

record ServerConfig =
  cfg_apiKey :: string
  cfg_baseUrl :: string
  cfg_debug :: bool

definition createStatelessServer :: "ServerConfig \<Rightarrow> upstream \<Rightarrow> RegisteredTool list" where
  "createStatelessServer config up =
     (let caminoApi = new_CaminoApiService
            \<lparr>baseUrl = cfg_baseUrl config, apiKey = cfg_apiKey config, config_timeout = None\<rparr>
      in
      [\<lparr>tool_name = ''camino_query'',
        paramsSchema =
          [(''query'', ZString),
           (''latitude'', ZOptional (ZNumber None None)),
           (''longitude'', ZOptional (ZNumber None None)),
           (''radius'', ZDefault (ZNumber (Some 100) (Some 50000)) (JNum 1000)),
           (''limit'', ZDefault (ZNumber (Some 1) (Some 100)) (JNum 20)),
           (''rank'', ZDefault ZBoolean (JBool True)),
           (''generate_answer'', ZDefault ZBoolean (JBool True))],
        callback = tool_callback (executeQuery caminoApi up)
          [''query'', ''latitude'', ''longitude'', ''radius'', ''rank'', ''limit'',
           ''generate_answer'']\<rparr>,
       \<lparr>tool_name = ''camino_search'',
        paramsSchema = [(''query'', ZString)],
        callback = tool_callback (executeSearch caminoApi up) [''query'']\<rparr>,
       \<lparr>tool_name = ''camino_spatial_relationship'',
        paramsSchema =
          [(''start_latitude'', ZNumber None None),
           (''start_longitude'', ZNumber None None),
           (''end_latitude'', ZNumber None None),
           (''end_longitude'', ZNumber None None),
           (''include'',
              ZDefault
                (ZArray (ZEnum [''distance'', ''direction'', ''travel_time'', ''description''])
                   None)
                (JArr [JStr ''distance'', JStr ''direction'', JStr ''travel_time'',
                       JStr ''description'']))],
        callback = tool_callback (calculateSpatialRelationship caminoApi up)
          [''start_latitude'', ''start_longitude'', ''end_latitude'', ''end_longitude'',
           ''include'']\<rparr>,
       \<lparr>tool_name = ''camino_place_context'',
        paramsSchema =
          [(''latitude'', ZNumber None None),
           (''longitude'', ZNumber None None),
           (''radius'', ZDefault ZString (JStr ''500m'')),
           (''context'', ZOptional ZString)],
        callback = tool_callback (getPlaceContext caminoApi up)
          [''latitude'', ''longitude'', ''radius'', ''context'']\<rparr>,
       \<lparr>tool_name = ''camino_journey_planning'',
        paramsSchema =
          [(''waypoints'',
              ZArray (ZObject [(''lat'', ZNumber None None),
                               (''lon'', ZNumber None None),
                               (''purpose'', ZString)])
                (Some 2)),
           (''transport_mode'',
              ZDefault (ZEnum [''walking'', ''driving'', ''cycling'']) (JStr ''walking'')),
           (''time_budget'', ZOptional ZString)],
        callback = tool_callback (planJourney caminoApi up)
          [''waypoints'', ''transport_mode'', ''time_budget'']\<rparr>,
       \<lparr>tool_name = ''camino_route_planning'',
        paramsSchema =
          [(''start_latitude'', ZNumber None None),
           (''start_longitude'', ZNumber None None),
           (''end_latitude'', ZNumber None None),
           (''end_longitude'', ZNumber None None),
           (''mode'', ZDefault (ZEnum [''car'', ''bike'', ''foot'']) (JStr ''car'')),
           (''include_geometry'', ZDefault ZBoolean (JBool False))],
        callback = tool_callback (planRoute caminoApi up)
          [''start_latitude'', ''start_longitude'', ''end_latitude'', ''end_longitude'',
           ''mode'', ''include_geometry'']\<rparr>])"

text \<open>The registration the factory made under a name.\<close>

definition registered :: "ServerConfig \<Rightarrow> upstream \<Rightarrow> string \<Rightarrow> RegisteredTool option" where
  "registered config up nm = find (\<lambda>t. tool_name t = nm) (createStatelessServer config up)"

section \<open>Tables for statements about all six tools\<close>

text \<open>The six operations of the client, in the order of the class.\<close>

definition operations :: "(CaminoApiService \<Rightarrow> upstream \<Rightarrow> jsval \<Rightarrow> jsval io) list" where
  "operations =
     [executeQuery, executeSearch, calculateSpatialRelationship, getPlaceContext,
      planJourney, planRoute]"

text \<open>
  For each case of the \<^verbatim>\<open>switch\<close> of \<open>executeTool\<close>: the operation its handler
  awaits and the request it builds.
\<close>

definition stdio_handlers ::
  "(string \<times> (CaminoApiService \<Rightarrow> upstream \<Rightarrow> jsval \<Rightarrow> jsval io) \<times> (jsval \<Rightarrow> jsval)) list" where
  "stdio_handlers =
     [(''camino_query'', executeQuery, queryToolRequest),
      (''camino_search'', executeSearch, searchToolRequest),
      (''camino_spatial_relationship'', calculateSpatialRelationship,
         spatialRelationshipToolRequest),
      (''camino_place_context'', getPlaceContext, placeContextToolRequest),
      (''camino_journey_planning'', planJourney, journeyPlanningToolRequest),
      (''camino_route_planning'', planRoute, routePlanningToolRequest)]"

text \<open>
  For each registration of the factory: the operation its callback awaits and the
  fields it copies into the request.
\<close>

definition factory_handlers ::
  "(string \<times> (CaminoApiService \<Rightarrow> upstream \<Rightarrow> jsval \<Rightarrow> jsval io) \<times> string list) list" where
  "factory_handlers =
     [(''camino_query'', executeQuery,
         [''query'', ''latitude'', ''longitude'', ''radius'', ''rank'', ''limit'',
          ''generate_answer'']),
      (''camino_search'', executeSearch, [''query'']),
      (''camino_spatial_relationship'', calculateSpatialRelationship,
         [''start_latitude'', ''start_longitude'', ''end_latitude'', ''end_longitude'',
          ''include'']),
      (''camino_place_context'', getPlaceContext,
         [''latitude'', ''longitude'', ''radius'', ''context'']),
      (''camino_journey_planning'', planJourney,
         [''waypoints'', ''transport_mode'', ''time_budget'']),
      (''camino_route_planning'', planRoute,
         [''start_latitude'', ''start_longitude'', ''end_latitude'', ''end_longitude'',
          ''mode'', ''include_geometry''])]"

text \<open>The client the factory builds from its configuration.\<close>

definition factory_caminoApi :: "ServerConfig \<Rightarrow> CaminoApiService" where
  "factory_caminoApi config =
     new_CaminoApiService
       \<lparr>baseUrl = cfg_baseUrl config, apiKey = cfg_apiKey config, config_timeout = None\<rparr>"

text \<open>The upstream calls issued between two states of the process.\<close>

definition issued :: "world \<Rightarrow> world \<Rightarrow> http_request list" where
  "issued w w1 = drop (length (calls w)) (calls w1)"

text \<open>A call without its headers and time limit: where it goes and what it carries.\<close>

definition payload ::
  "http_request \<Rightarrow> string \<times> http_method \<times> string \<times> (string \<times> jsval) list \<times> jsval" where
  "payload c = (baseURL c, req_method c, url c, params c, body c)"

section \<open>Example inputs\<close>

text \<open>A remote that answers every call, and one that cannot be reached.\<close>

definition upstream_ok :: upstream where
  "upstream_ok r = HttpOk (JObj [(''results'', JArr [])])"

definition upstream_down :: upstream where
  "upstream_down r = HttpFail ''Network Error'' None"

text \<open>A fresh process with debugging off.\<close>

definition idle :: world where
  "idle = \<lparr>calls = [], stdout = [], stderr = [], logFile = [], logWritable = True,
            debugMode = False\<rparr>"

definition example_server :: CaminoApiService where
  "example_server = CaminoMCPServer_caminoApi ''https://api.getcamino.ai'' ''secret''"

definition example_config :: ServerConfig where
  "example_config =
     \<lparr>cfg_apiKey = ''secret'', cfg_baseUrl = ''https://api.getcamino.ai'', cfg_debug = False\<rparr>"

text \<open>Two waypoints in the shape the stdio descriptor advertises.\<close>

definition cafe :: jsval where
  "cafe = JObj [(''latitude'', JNum 40.7831), (''longitude'', JNum (- 73.9712)),
                (''purpose'', JStr ''coffee'')]"

definition office :: jsval where
  "office = JObj [(''latitude'', JNum 40.758), (''longitude'', JNum (- 73.9855)),
                  (''purpose'', JStr ''meeting'')]"

definition route_args :: jsval where
  "route_args =
     JObj [(''start_latitude'', JNum 40.7831), (''start_longitude'', JNum (- 73.9712)),
           (''end_latitude'', JNum 40.758), (''end_longitude'', JNum (- 73.9855)),
           (''mode'', JStr ''bike'')]"

text \<open>Arguments that are supplied, and falsy.\<close>

definition falsy_args :: jsval where
  "falsy_args =
     JObj [(''query'', JStr ''coffee''), (''radius'', JNum 0), (''limit'', JNum 0),
           (''rank'', JNum 0), (''generate_answer'', JNull), (''mode'', JStr ''''),
           (''include_geometry'', JNum 0)]"

section \<open>Basic facts\<close>

lemmas logger_defs = Logger_debug_def Logger_info_def Logger_error_def writeToFile_def
lemmas io_defs = bind_io_def return_io_def throw_io_def
lemmas axios_defs = axios_get_def axios_post_def axios_request_def

lemma calls_Logger_debug: "calls (Logger_debug m d w) = calls w"
  by (simp add: logger_defs)

lemma snd_bind_return: "snd (bind_io m (\<lambda>x. return_io (f x)) w) = snd (m w)"
  by (simp add: io_defs split: prod.splits sum.splits)

lemma tool_callback_calls:
  "calls (snd (tool_callback operation ks parsed w)) =
     calls (snd (operation (copy_fields ks parsed) w))"
  by (simp add: tool_callback_def snd_bind_return)

section \<open>The query tool's upstream call\<close>

lemma executeQuery_calls:
  "calls (snd (executeQuery svc up request w)) =
     calls w @
       [\<lparr>baseURL = inst_baseURL (client svc), req_method = GET, url = ''/query'',
         params = [(''q'', getProp request ''query''),
                   (''lat'', getProp request ''latitude''),
                   (''lon'', getProp request ''longitude''),
                   (''radius'', getProp request ''radius''),
                   (''rank'', getProp request ''rank''),
                   (''limit'', getProp request ''limit''),
                   (''answer'', getProp request ''generate_answer'')],
         body = JUndefined, headers = inst_headers (client svc),
         timeout = inst_timeout (client svc)\<rparr>]"
  by (simp add: executeQuery_def axios_defs console_error_def Let_def split: http_result.splits)

lemma stdio_query_only:
  "calls (snd (callToolHandler svc up ''camino_query'' (JObj [(''query'', q)]) w)) =
     calls w @
       [\<lparr>baseURL = inst_baseURL (client svc), req_method = GET, url = ''/query'',
         params = [(''q'', q), (''lat'', JUndefined), (''lon'', JUndefined),
                   (''radius'', JNum 1000), (''rank'', JBool True), (''limit'', JNum 20),
                   (''answer'', JBool True)],
         body = JUndefined, headers = inst_headers (client svc),
         timeout = inst_timeout (client svc)\<rparr>]"
proof -
  let ?args = "JObj [(''query'', q)]"
  have snd_handler: "snd (callToolHandler svc up ''camino_query'' ?args w) =
      snd (executeQuery svc up (queryToolRequest ?args)
            (Logger_debug ''Executing tool''
               (Data (JObj [(''name'', JStr ''camino_query''), (''args'', ?args)])) w))"
    by (simp add: callToolHandler_def executeTool_def executeQueryTool_def orElse_def
        io_defs Let_def split: prod.splits sum.splits)
  show ?thesis
    unfolding snd_handler executeQuery_calls
    by (simp add: queryToolRequest_def orElse_def notFalse_def calls_Logger_debug)
qed

lemma registered_query:
  "registered config up ''camino_query'' = Some (hd (createStatelessServer config up))"
  by (simp add: registered_def createStatelessServer_def Let_def)

lemma factory_query_only:
  "\<exists>t. registered config up ''camino_query'' = Some t \<and>
     calls (snd (call_registered t (JObj [(''query'', JStr s)]) w)) =
     calls w @
       [\<lparr>baseURL = cfg_baseUrl config, req_method = GET, url = ''/query'',
         params = [(''q'', JStr s), (''lat'', JUndefined), (''lon'', JUndefined),
                   (''radius'', JNum 1000), (''rank'', JBool True), (''limit'', JNum 20),
                   (''answer'', JBool True)],
         body = JUndefined,
         headers = [(''Content-Type'', ''application/json''),
                    (''Accept'', ''application/json''),
                    (''X-API-Key'', cfg_apiKey config)],
         timeout = 30000\<rparr>]"
proof -
  let ?t = "hd (createStatelessServer config up)"
  have parsed: "zparse (ZObject (paramsSchema ?t)) (JObj [(''query'', JStr s)]) =
      Some (JObj [(''query'', JStr s), (''radius'', JNum 1000), (''limit'', JNum 20),
                  (''rank'', JBool True), (''generate_answer'', JBool True)])"
    by (simp add: createStatelessServer_def Let_def)
  have cb: "callback ?t =
      tool_callback
        (executeQuery
           (new_CaminoApiService
              \<lparr>baseUrl = cfg_baseUrl config, apiKey = cfg_apiKey config,
               config_timeout = None\<rparr>) up)
        [''query'', ''latitude'', ''longitude'', ''radius'', ''rank'', ''limit'',
         ''generate_answer'']"
    by (simp add: createStatelessServer_def Let_def)
  have "calls (snd (call_registered ?t (JObj [(''query'', JStr s)]) w)) =
     calls w @
       [\<lparr>baseURL = cfg_baseUrl config, req_method = GET, url = ''/query'',
         params = [(''q'', JStr s), (''lat'', JUndefined), (''lon'', JUndefined),
                   (''radius'', JNum 1000), (''rank'', JBool True), (''limit'', JNum 20),
                   (''answer'', JBool True)],
         body = JUndefined,
         headers = [(''Content-Type'', ''application/json''),
                    (''Accept'', ''application/json''),
                    (''X-API-Key'', cfg_apiKey config)],
         timeout = 30000\<rparr>]"
    by (simp add: call_registered_def parsed cb tool_callback_calls executeQuery_calls
        copy_fields_def new_CaminoApiService_def del: zparse.simps)
  with registered_query show ?thesis by blast
qed

text \<open>
  Claim C7. A \<^verbatim>\<open>camino_query\<close> invocation whose arguments hold \<^verbatim>\<open>query\<close> and
  nothing else issues exactly one upstream call: a GET of \<^verbatim>\<open>/query\<close> whose
  parameters carry the query under \<^verbatim>\<open>q\<close>, no \<^verbatim>\<open>lat\<close> and \<^verbatim>\<open>lon\<close>, and the
  defaults \<^verbatim>\<open>radius\<close> 1000, \<^verbatim>\<open>limit\<close> 20, \<^verbatim>\<open>rank\<close> true and \<^verbatim>\<open>answer\<close> true.
  The stdio handler does so for any query value, the factory's registration for any
  string (the only query its shape accepts).
\<close>

theorem query_only_uses_defaults:
  "calls (snd (callToolHandler svc up ''camino_query'' (JObj [(''query'', q)]) w)) =
     calls w @
       [\<lparr>baseURL = inst_baseURL (client svc), req_method = GET, url = ''/query'',
         params = [(''q'', q), (''lat'', JUndefined), (''lon'', JUndefined),
                   (''radius'', JNum 1000), (''rank'', JBool True), (''limit'', JNum 20),
                   (''answer'', JBool True)],
         body = JUndefined, headers = inst_headers (client svc),
         timeout = inst_timeout (client svc)\<rparr>]
   \<and> (\<exists>t. registered config up ''camino_query'' = Some t \<and>
          calls (snd (call_registered t (JObj [(''query'', JStr s)]) w)) =
          calls w @
            [\<lparr>baseURL = cfg_baseUrl config, req_method = GET, url = ''/query'',
              params = [(''q'', JStr s), (''lat'', JUndefined), (''lon'', JUndefined),
                        (''radius'', JNum 1000), (''rank'', JBool True),
                        (''limit'', JNum 20), (''answer'', JBool True)],
              body = JUndefined,
              headers = [(''Content-Type'', ''application/json''),
                         (''Accept'', ''application/json''),
                         (''X-API-Key'', cfg_apiKey config)],
              timeout = 30000\<rparr>])"
  using stdio_query_only factory_query_only by blast

section \<open>Default substitution in the stdio handlers\<close>

text \<open>
  Claim C10. In the stdio-bound server a default replaces every falsy argument value,
  not only an omitted one: a \<^verbatim>\<open>radius\<close> or \<^verbatim>\<open>limit\<close> that is falsy (0 among
  them) becomes 1000 or 20, \<^verbatim>\<open>rank\<close> and \<^verbatim>\<open>generate_answer\<close> become true for
  every value but the boolean false, a falsy \<^verbatim>\<open>mode\<close> becomes \<^verbatim>\<open>car\<close> and a falsy
  \<^verbatim>\<open>include_geometry\<close> becomes false.
\<close>

theorem falsy_arguments_take_defaults:
  "(\<not> truthy (getProp args ''radius'') \<longrightarrow>
      getProp (queryToolRequest args) ''radius'' = JNum 1000)
   \<and> (\<not> truthy (getProp args ''limit'') \<longrightarrow>
      getProp (queryToolRequest args) ''limit'' = JNum 20)
   \<and> (getProp args ''rank'' \<noteq> JBool False \<longrightarrow>
      getProp (queryToolRequest args) ''rank'' = JBool True)
   \<and> (getProp args ''generate_answer'' \<noteq> JBool False \<longrightarrow>
      getProp (queryToolRequest args) ''generate_answer'' = JBool True)
   \<and> (\<not> truthy (getProp args ''mode'') \<longrightarrow>
      getProp (routePlanningToolRequest args) ''mode'' = JStr ''car'')
   \<and> (\<not> truthy (getProp args ''include_geometry'') \<longrightarrow>
      getProp (routePlanningToolRequest args) ''include_geometry'' = JBool False)"
  by (simp add: queryToolRequest_def routePlanningToolRequest_def orElse_def notFalse_def)

theorem falsy_arguments_take_defaults_witness:
  "getProp falsy_args ''radius'' = JNum 0
   \<and> getProp (queryToolRequest falsy_args) ''radius'' = JNum 1000
   \<and> getProp falsy_args ''limit'' = JNum 0
   \<and> getProp (queryToolRequest falsy_args) ''limit'' = JNum 20
   \<and> getProp falsy_args ''rank'' = JNum 0
   \<and> getProp (queryToolRequest falsy_args) ''rank'' = JBool True
   \<and> getProp falsy_args ''generate_answer'' = JNull
   \<and> getProp (queryToolRequest falsy_args) ''generate_answer'' = JBool True
   \<and> getProp falsy_args ''mode'' = JStr ''''
   \<and> getProp (routePlanningToolRequest falsy_args) ''mode'' = JStr ''car''
   \<and> getProp falsy_args ''include_geometry'' = JNum 0
   \<and> getProp (routePlanningToolRequest falsy_args) ''include_geometry'' = JBool False"
proof -
  have supplied:
    "getProp falsy_args ''radius'' = JNum 0" "getProp falsy_args ''limit'' = JNum 0"
    "getProp falsy_args ''rank'' = JNum 0" "getProp falsy_args ''generate_answer'' = JNull"
    "getProp falsy_args ''mode'' = JStr ''''" "getProp falsy_args ''include_geometry'' = JNum 0"
    by (simp_all add: falsy_args_def)
  from falsy_arguments_take_defaults [of falsy_args] supplied show ?thesis
    by simp
qed

section \<open>Unregistered tool names\<close>

lemma tool_names: "map name getTools =
  [''camino_query'', ''camino_search'', ''camino_spatial_relationship'',
   ''camino_place_context'', ''camino_journey_planning'', ''camino_route_planning'']"
  by (simp add: getTools_def)

text \<open>
  Claim C6. A call of the stdio handler under a name that is none of the six
  registered ones (compared as strings, exactly) fails with an internal error whose
  message embeds the cause, \<^verbatim>\<open>Unknown tool: \<close> and the name; no tool result is
  returned, no upstream call is made and nothing is written to either channel.
\<close>

theorem unknown_tool_is_internal_error:
  assumes "nm \<notin> set (map name getTools)"
  shows "fst (callToolHandler svc up nm args w) =
           Inl (McpError InternalError (''Tool execution failed: Unknown tool: '' @ nm))
         \<and> calls (snd (callToolHandler svc up nm args w)) = calls w
         \<and> stderr (snd (callToolHandler svc up nm args w)) = stderr w
         \<and> stdout (snd (callToolHandler svc up nm args w)) = stdout w"
  using assms unfolding tool_names
  by (simp add: callToolHandler_def executeTool_def throw_io_def Let_def logger_defs)

theorem unknown_tool_is_internal_error_witness:
  "''Camino_Query'' \<notin> set (map name getTools)
   \<and> fst (callToolHandler example_server upstream_ok ''Camino_Query''
             (JObj [(''query'', JStr ''coffee'')]) idle) =
       Inl (McpError InternalError ''Tool execution failed: Unknown tool: Camino_Query'')
   \<and> calls (snd (callToolHandler example_server upstream_ok ''Camino_Query''
             (JObj [(''query'', JStr ''coffee'')]) idle)) = []"
proof -
  have unregistered: "''Camino_Query'' \<notin> set (map name getTools)"
    by (simp add: tool_names)
  from unknown_tool_is_internal_error [OF unregistered, of example_server upstream_ok
      "JObj [(''query'', JStr ''coffee'')]" idle] unregistered
  show ?thesis by (simp add: idle_def)
qed

section \<open>Headers, time limit and the API key\<close>

lemmas client_defs = executeQuery_def executeSearch_def calculateSpatialRelationship_def
  getPlaceContext_def planJourney_def planRoute_def catch_logged_def module_Logger_def
  console_error_def success_envelope_def failure_envelope_def

lemma issued_append: "calls w1 = calls w @ cs \<Longrightarrow> issued w w1 = cs"
  by (simp add: issued_def)

text \<open>Every operation issues at most one call, built from the instance's defaults.\<close>

lemma operation_issues:
  assumes "operation \<in> set operations"
  shows "\<exists>cs. calls (snd (operation svc up request w)) = calls w @ cs \<and> length cs \<le> 1 \<and>
           (\<forall>c \<in> set cs. headers c = inst_headers (client svc) \<and>
                           timeout c = inst_timeout (client svc) \<and>
                           baseURL c = inst_baseURL (client svc))"
  using assms
  by (auto simp: operations_def client_defs axios_defs Let_def
      split: http_result.splits sum.splits)


lemma operation_payload:
  assumes "operation \<in> set operations"
      and "inst_baseURL (client svc) = inst_baseURL (client svc')"
  shows "map payload (issued w (snd (operation svc up request w))) =
         map payload (issued w (snd (operation svc' up' request w)))"
  using assms
  by (auto simp: operations_def client_defs axios_defs Let_def issued_def payload_def
      split: http_result.splits sum.splits)

text \<open>
  Claim C9. A client constructed without a time limit has the limit 30000 ms, and
  every call any of its six operations issues carries that limit and the headers
  \<^verbatim>\<open>Content-Type: application/json\<close>, \<^verbatim>\<open>Accept: application/json\<close> and
  \<^verbatim>\<open>X-API-Key\<close> with the key; the base URL, method, path, parameters and body of
  the calls are the same whatever the key is (and whatever the remote answers), so the
  key is in none of them.
\<close>

theorem client_timeout_and_headers:
  assumes "operation \<in> set operations"
  shows "inst_timeout
           (client (new_CaminoApiService \<lparr>baseUrl = b, apiKey = k, config_timeout = None\<rparr>)) =
         30000
     \<and> (\<forall>c \<in> set (issued w
                     (snd (operation
                             (new_CaminoApiService
                                \<lparr>baseUrl = b, apiKey = k, config_timeout = None\<rparr>)
                             up request w))).
          timeout c = 30000 \<and>
          headers c = [(''Content-Type'', ''application/json''),
                       (''Accept'', ''application/json''),
                       (''X-API-Key'', k)])
     \<and> map payload
          (issued w
             (snd (operation
                     (new_CaminoApiService \<lparr>baseUrl = b, apiKey = k, config_timeout = None\<rparr>)
                     up request w))) =
       map payload
          (issued w
             (snd (operation
                     (new_CaminoApiService \<lparr>baseUrl = b, apiKey = k', config_timeout = None\<rparr>)
                     up' request w)))"
proof -
  let ?svc = "new_CaminoApiService \<lparr>baseUrl = b, apiKey = k, config_timeout = None\<rparr>"
  let ?svc' = "new_CaminoApiService \<lparr>baseUrl = b, apiKey = k', config_timeout = None\<rparr>"
  have default_timeout: "inst_timeout (client ?svc) = 30000"
    by (simp add: new_CaminoApiService_def)
  have fixed_headers: "inst_headers (client ?svc) =
      [(''Content-Type'', ''application/json''), (''Accept'', ''application/json''),
       (''X-API-Key'', k)]"
    by (simp add: new_CaminoApiService_def)
  from operation_issues [OF assms, of ?svc up request w]
  obtain cs where cs: "calls (snd (operation ?svc up request w)) = calls w @ cs"
    and each: "\<forall>c \<in> set cs. headers c = inst_headers (client ?svc) \<and>
                 timeout c = inst_timeout (client ?svc) \<and> baseURL c = inst_baseURL (client ?svc)"
    by blast
  have "issued w (snd (operation ?svc up request w)) = cs"
    using cs by (rule issued_append)
  with each default_timeout fixed_headers
  have carried: "\<forall>c \<in> set (issued w (snd (operation ?svc up request w))).
          timeout c = 30000 \<and>
          headers c = [(''Content-Type'', ''application/json''),
                       (''Accept'', ''application/json''),
                       (''X-API-Key'', k)]"
    by simp
  have "inst_baseURL (client ?svc) = inst_baseURL (client ?svc')"
    by (simp add: new_CaminoApiService_def)
  from operation_payload [OF assms this, of w up request up']
  have "map payload (issued w (snd (operation ?svc up request w))) =
        map payload (issued w (snd (operation ?svc' up' request w)))" .
  with default_timeout carried show ?thesis by blast
qed

theorem client_timeout_and_headers_witness:
  "planRoute \<in> set operations
   \<and> map timeout (issued idle (snd (planRoute example_server upstream_down route_args idle))) =
       [30000]
   \<and> map headers (issued idle (snd (planRoute example_server upstream_down route_args idle))) =
       [[(''Content-Type'', ''application/json''), (''Accept'', ''application/json''),
         (''X-API-Key'', ''secret'')]]"
proof -
  have member: "planRoute \<in> set operations"
    by (simp add: operations_def)
  have one: "length (issued idle (snd (planRoute example_server upstream_down route_args idle)))
      = 1"
    by (simp add: planRoute_def axios_defs Let_def upstream_down_def catch_logged_def
        module_Logger_def issued_def idle_def)
  from client_timeout_and_headers [OF member, of "''https://api.getcamino.ai''" "''secret''"
      idle upstream_down route_args "''other''" upstream_ok]
  have "\<forall>c \<in> set (issued idle (snd (planRoute example_server upstream_down route_args idle))).
          timeout c = 30000 \<and>
          headers c = [(''Content-Type'', ''application/json''),
                       (''Accept'', ''application/json''),
                       (''X-API-Key'', ''secret'')]"
    by (simp add: example_server_def CaminoMCPServer_caminoApi_def)
  with one member show ?thesis
    by (cases "issued idle (snd (planRoute example_server upstream_down route_args idle))")
       auto
qed

section \<open>What the host receives\<close>

lemmas stdio_tool_defs = executeQueryTool_def executeSearchTool_def
  executeSpatialRelationshipTool_def executePlaceContextTool_def
  executeJourneyPlanningTool_def executeRoutePlanningTool_def

lemma unwrap_flag:
  "getProp env ''success'' = JBool b \<Longrightarrow> unwrap env = (if b then getProp env ''data'' else env)"
  by (simp add: unwrap_def)

text \<open>The handler behind each case of the switch.\<close>

lemma executeTool_cases:
  "executeTool svc up ''camino_query'' args w =
     executeQueryTool svc up args
       (Logger_debug ''Executing tool''
          (Data (JObj [(''name'', JStr ''camino_query''), (''args'', args)])) w)"
  "executeTool svc up ''camino_search'' args w =
     executeSearchTool svc up args
       (Logger_debug ''Executing tool''
          (Data (JObj [(''name'', JStr ''camino_search''), (''args'', args)])) w)"
  "executeTool svc up ''camino_spatial_relationship'' args w =
     executeSpatialRelationshipTool svc up args
       (Logger_debug ''Executing tool''
          (Data (JObj [(''name'', JStr ''camino_spatial_relationship''), (''args'', args)])) w)"
  "executeTool svc up ''camino_place_context'' args w =
     executePlaceContextTool svc up args
       (Logger_debug ''Executing tool''
          (Data (JObj [(''name'', JStr ''camino_place_context''), (''args'', args)])) w)"
  "executeTool svc up ''camino_journey_planning'' args w =
     executeJourneyPlanningTool svc up args
       (Logger_debug ''Executing tool''
          (Data (JObj [(''name'', JStr ''camino_journey_planning''), (''args'', args)])) w)"
  "executeTool svc up ''camino_route_planning'' args w =
     executeRoutePlanningTool svc up args
       (Logger_debug ''Executing tool''
          (Data (JObj [(''name'', JStr ''camino_route_planning''), (''args'', args)])) w)"
  by (simp_all add: executeTool_def Let_def)



lemma handler_of_operation:
  assumes "operation svc up request w1 = (Inr env, w2)"
      and "getProp env ''success'' = JBool b"
  shows "bind_io (operation svc up request) (\<lambda>response. return_io (unwrap response)) w1 =
           (Inr (if b then getProp env ''data'' else env), w2)"
  using assms by (simp add: io_defs unwrap_flag)

lemma stdio_handlers_cases:
  assumes "(nm, operation, mkRequest) \<in> set stdio_handlers"
  shows "(nm = ''camino_query'' \<and> operation = executeQuery \<and> mkRequest = queryToolRequest)
     \<or> (nm = ''camino_search'' \<and> operation = executeSearch \<and> mkRequest = searchToolRequest)
     \<or> (nm = ''camino_spatial_relationship'' \<and> operation = calculateSpatialRelationship
          \<and> mkRequest = spatialRelationshipToolRequest)
     \<or> (nm = ''camino_place_context'' \<and> operation = getPlaceContext
          \<and> mkRequest = placeContextToolRequest)
     \<or> (nm = ''camino_journey_planning'' \<and> operation = planJourney
          \<and> mkRequest = journeyPlanningToolRequest)
     \<or> (nm = ''camino_route_planning'' \<and> operation = planRoute
          \<and> mkRequest = routePlanningToolRequest)"
  using assms unfolding stdio_handlers_def by simp

lemma executeTool_by_table:
  assumes "(nm, operation, mkRequest) \<in> set stdio_handlers"
  shows "executeTool svc up nm args w =
      bind_io (operation svc up (mkRequest args))
        (\<lambda>response. return_io (unwrap response))
        (Logger_debug ''Executing tool''
           (Data (JObj [(''name'', JStr nm), (''args'', args)])) w)"
  using stdio_handlers_cases [OF assms]
  by (elim disjE conjE; hypsubst; simp only: executeTool_cases stdio_tool_defs)

lemma stdio_handler_unwraps:
  assumes table: "(nm, operation, mkRequest) \<in> set stdio_handlers"
      and envelope: "operation svc up (mkRequest (orElse args (JObj [])))
             (Logger_debug ''Executing tool''
                (Data (JObj [(''name'', JStr nm), (''args'', orElse args (JObj []))])) w) =
           (Inr env, w2)"
      and flag: "getProp env ''success'' = JBool b"
  shows "callToolHandler svc up nm args w =
           (Inr [TextJson (if b then getProp env ''data'' else env)], w2)"
proof -
  have "executeTool svc up nm (orElse args (JObj [])) w =
      bind_io (operation svc up (mkRequest (orElse args (JObj []))))
        (\<lambda>response. return_io (unwrap response))
        (Logger_debug ''Executing tool''
           (Data (JObj [(''name'', JStr nm), (''args'', orElse args (JObj []))])) w)"
    using table by (rule executeTool_by_table)
  also have "\<dots> = (Inr (if b then getProp env ''data'' else env), w2)"
    using envelope flag by (rule handler_of_operation)
  finally show ?thesis
    by (simp add: callToolHandler_def)
qed

lemma factory_handlers_cases:
  assumes "(nm, operation, ks) \<in> set factory_handlers"
  shows "(nm = ''camino_query'' \<and> operation = executeQuery \<and>
          ks = [''query'', ''latitude'', ''longitude'', ''radius'', ''rank'', ''limit'',
                ''generate_answer''])
     \<or> (nm = ''camino_search'' \<and> operation = executeSearch \<and> ks = [''query''])
     \<or> (nm = ''camino_spatial_relationship'' \<and> operation = calculateSpatialRelationship \<and>
          ks = [''start_latitude'', ''start_longitude'', ''end_latitude'', ''end_longitude'',
                ''include''])
     \<or> (nm = ''camino_place_context'' \<and> operation = getPlaceContext \<and>
          ks = [''latitude'', ''longitude'', ''radius'', ''context''])
     \<or> (nm = ''camino_journey_planning'' \<and> operation = planJourney \<and>
          ks = [''waypoints'', ''transport_mode'', ''time_budget''])
     \<or> (nm = ''camino_route_planning'' \<and> operation = planRoute \<and>
          ks = [''start_latitude'', ''start_longitude'', ''end_latitude'', ''end_longitude'',
                ''mode'', ''include_geometry''])"
  using assms unfolding factory_handlers_def by simp

lemma registered_callback:
  assumes "(nm, operation, ks) \<in> set factory_handlers"
      and "registered config up nm = Some t"
  shows "callback t = tool_callback (operation (factory_caminoApi config) up) ks"
  using factory_handlers_cases [OF assms(1)] assms(2)
  by (elim disjE conjE; hypsubst;
      clarsimp simp: registered_def createStatelessServer_def Let_def factory_caminoApi_def)

lemma factory_callback_unwraps:
  assumes table: "(nm, operation, ks) \<in> set factory_handlers"
      and found: "registered config up nm = Some t"
      and envelope:
        "operation (factory_caminoApi config) up (copy_fields ks parsed) w = (Inr env, w2)"
      and flag: "getProp env ''success'' = JBool b"
  shows "callback t parsed w = (Inr [TextJson (if b then getProp env ''data'' else env)], w2)"
  using envelope flag
  by (simp add: registered_callback [OF table found] tool_callback_def io_defs unwrap_flag)

text \<open>
  Claim C4. Whenever the client's operation returns an envelope to a tool's handler,
  the host receives a result, not an error: the envelope's \<^verbatim>\<open>data\<close> alone when
  \<^verbatim>\<open>success\<close> is true, the whole envelope when it is false. This holds for the six
  cases of the stdio handler and for the six callbacks the factory registers.
\<close>

theorem tool_result_unwraps_envelope:
  assumes "getProp env ''success'' = JBool b"
  shows "((nm, operation, mkRequest) \<in> set stdio_handlers \<and>
          operation svc up (mkRequest (orElse args (JObj [])))
            (Logger_debug ''Executing tool''
               (Data (JObj [(''name'', JStr nm), (''args'', orElse args (JObj []))])) w) =
          (Inr env, w2) \<longrightarrow>
          callToolHandler svc up nm args w =
            (Inr [TextJson (if b then getProp env ''data'' else env)], w2))
     \<and> ((nm, operation, ks) \<in> set factory_handlers \<and>
          registered config up nm = Some t \<and>
          operation (factory_caminoApi config) up (copy_fields ks parsed) w = (Inr env, w2) \<longrightarrow>
          callback t parsed w =
            (Inr [TextJson (if b then getProp env ''data'' else env)], w2))"
proof (intro conjI impI)
  assume "(nm, operation, mkRequest) \<in> set stdio_handlers \<and>
          operation svc up (mkRequest (orElse args (JObj [])))
            (Logger_debug ''Executing tool''
               (Data (JObj [(''name'', JStr nm), (''args'', orElse args (JObj []))])) w) =
          (Inr env, w2)"
  then have "(nm, operation, mkRequest) \<in> set stdio_handlers"
    and "operation svc up (mkRequest (orElse args (JObj [])))
            (Logger_debug ''Executing tool''
               (Data (JObj [(''name'', JStr nm), (''args'', orElse args (JObj []))])) w) =
          (Inr env, w2)"
    by simp_all
  then show "callToolHandler svc up nm args w =
            (Inr [TextJson (if b then getProp env ''data'' else env)], w2)"
    using assms by (rule stdio_handler_unwraps)
next
  assume "(nm, operation, ks) \<in> set factory_handlers \<and>
          registered config up nm = Some t \<and>
          operation (factory_caminoApi config) up (copy_fields ks parsed) w = (Inr env, w2)"
  then have "(nm, operation, ks) \<in> set factory_handlers"
    and "registered config up nm = Some t"
    and "operation (factory_caminoApi config) up (copy_fields ks parsed) w = (Inr env, w2)"
    by simp_all
  then show "callback t parsed w =
            (Inr [TextJson (if b then getProp env ''data'' else env)], w2)"
    using assms by (rule factory_callback_unwraps)
qed

theorem tool_result_unwraps_envelope_witness:
  "fst (callToolHandler example_server upstream_down ''camino_query''
          (JObj [(''query'', JStr ''coffee'')]) idle) =
     Inr [TextJson
            (JObj [(''success'', JBool False),
                   (''error'', JStr ''Network Error''),
                   (''data'', JObj [(''query'', JStr ''coffee''), (''results'', JArr []),
                                    (''total_found'', JNum 0), (''ai_ranked'', JBool False)])])]
   \<and> fst (callback (createStatelessServer example_config upstream_ok ! 1)
            (JObj [(''query'', JStr ''Eiffel Tower'')]) idle) =
     Inr [TextJson (JObj [(''results'', JArr [])])]"
proof -
  let ?args = "JObj [(''query'', JStr ''coffee'')]"
  let ?failed = "JObj [(''success'', JBool False),
                   (''error'', JStr ''Network Error''),
                   (''data'', JObj [(''query'', JStr ''coffee''), (''results'', JArr []),
                                    (''total_found'', JNum 0), (''ai_ranked'', JBool False)])]"
  let ?w1 = "Logger_debug ''Executing tool''
               (Data (JObj [(''name'', JStr ''camino_query''),
                            (''args'', orElse ?args (JObj []))])) idle"
  let ?run = "executeQuery example_server upstream_down
                (queryToolRequest (orElse ?args (JObj []))) ?w1"
  have "fst ?run = Inr ?failed"
    by (simp add: executeQuery_def axios_defs Let_def upstream_down_def failure_envelope_def
        orElse_def queryToolRequest_def)
  then have envelope: "?run = (Inr ?failed, snd ?run)"
    by (metis prod.collapse)
  have in_table: "(''camino_query'', executeQuery, queryToolRequest) \<in> set stdio_handlers"
    by (simp add: stdio_handlers_def)
  have failed_flag: "getProp ?failed ''success'' = JBool False"
    by simp
  from tool_result_unwraps_envelope [OF failed_flag, of "''camino_query''" executeQuery
      queryToolRequest example_server upstream_down ?args idle "snd ?run"]
    in_table envelope
  have stdio: "callToolHandler example_server upstream_down ''camino_query'' ?args idle =
      (Inr [TextJson ?failed], snd ?run)"
    by simp
  let ?parsed = "JObj [(''query'', JStr ''Eiffel Tower'')]"
  let ?ok = "JObj [(''success'', JBool True), (''data'', JObj [(''results'', JArr [])])]"
  let ?t = "createStatelessServer example_config upstream_ok ! 1"
  let ?search = "executeSearch (factory_caminoApi example_config) upstream_ok
                   (copy_fields [''query''] ?parsed) idle"
  have "fst ?search = Inr ?ok"
    by (simp add: executeSearch_def axios_defs Let_def upstream_ok_def success_envelope_def)
  then have envelope2: "?search = (Inr ?ok, snd ?search)"
    by (metis prod.collapse)
  have in_table2: "(''camino_search'', executeSearch, [''query'']) \<in> set factory_handlers"
    by (simp add: factory_handlers_def)
  have found: "registered example_config upstream_ok ''camino_search'' = Some ?t"
    by (simp add: registered_def createStatelessServer_def Let_def)
  have ok_flag: "getProp ?ok ''success'' = JBool True"
    by simp
  from tool_result_unwraps_envelope [OF ok_flag, of "''camino_search''" executeSearch
      queryToolRequest example_server upstream_ok JNull idle "snd ?search" "[''query'']"
      example_config ?t ?parsed]
    in_table2 found envelope2
  have factory: "callback ?t ?parsed idle = (Inr [TextJson (JObj [(''results'', JArr [])])],
      snd ?search)"
    by simp
  from stdio factory show ?thesis by simp
qed

section \<open>Journeys with fewer than two waypoints\<close>

lemma short_array_refused:
  "length wps < 2 \<Longrightarrow> zparse (ZArray el (Some 2)) (JArr wps) = None"
  by (simp split: option.splits)

lemma registered_journey:
  "registered config up ''camino_journey_planning'' = Some t \<Longrightarrow>
     tool_name t = ''camino_journey_planning'' \<and>
     paramsSchema t =
       [(''waypoints'',
           ZArray (ZObject [(''lat'', ZNumber None None), (''lon'', ZNumber None None),
                            (''purpose'', ZString)])
             (Some 2)),
        (''transport_mode'',
           ZDefault (ZEnum [''walking'', ''driving'', ''cycling'']) (JStr ''walking'')),
        (''time_budget'', ZOptional ZString)]"
  by (clarsimp simp: registered_def createStatelessServer_def Let_def)

text \<open>
  The session-factory variant: the registered shape (\<^verbatim>\<open>.min(2)\<close>) refuses fewer
  than two waypoints before the callback runs, with an invalid-parameters error and
  the process left as it was, so no upstream call is issued.
\<close>

lemma factory_refuses_short_journey:
  assumes found: "registered config up ''camino_journey_planning'' = Some t"
      and waypoints: "getProp args ''waypoints'' = JArr wps"
      and short: "length wps < 2"
  shows "call_registered t args w =
           (Inl (McpError InvalidParams ''Invalid arguments for tool camino_journey_planning''),
            w)"
proof -
  from waypoints obtain fs where args: "args = JObj fs"
    by (cases args) simp_all
  have refused: "zparse (ZArray (ZObject [(''lat'', ZNumber None None),
        (''lon'', ZNumber None None), (''purpose'', ZString)]) (Some 2))
      (getProp (JObj fs) ''waypoints'') = None"
    using waypoints short unfolding args by (simp only: short_array_refused)
  have "zparse (ZObject (paramsSchema t)) args = None"
    unfolding args using refused
    by (simp add: registered_journey [OF found] del: zparse.simps(5) getProp.simps)
  then show ?thesis
    by (simp add: call_registered_def registered_journey [OF found])
qed

text \<open>
  Claim C3 (the code departs from it). In the stdio-bound variant a
  \<^verbatim>\<open>camino_journey_planning\<close> invocation with a single waypoint is not refused: the
  descriptor advertises \<^verbatim>\<open>minItems: 2\<close>, but the \<^verbatim>\<open>tools/call\<close> handler hands the
  arguments to \<open>executeTool\<close> unchecked, \<open>planJourney\<close> runs and the POST of
  \<^verbatim>\<open>/journey\<close> is issued. The session-factory variant refuses the same invocation
  before its callback runs (\<open>factory_refuses_short_journey\<close>).
\<close>

theorem stdio_forwards_single_waypoint:
  "callToolHandler example_server upstream_ok ''camino_journey_planning''
     (JObj [(''waypoints'', JArr [cafe])]) idle =
   (Inr [TextJson (JObj [(''results'', JArr [])])],
    idle\<lparr>calls :=
      [\<lparr>baseURL = ''https://api.getcamino.ai'', req_method = POST, url = ''/journey'',
        params = [],
        body = JObj [(''waypoints'',
                        JArr [JObj [(''lat'', JUndefined), (''lon'', JUndefined),
                                    (''purpose'', JStr ''coffee'')]]),
                     (''constraints'',
                        JObj [(''transport'', JStr ''walking''),
                              (''time_budget'', JUndefined)])],
        headers = [(''Content-Type'', ''application/json''),
                   (''Accept'', ''application/json''),
                   (''X-API-Key'', ''secret'')],
        timeout = 30000\<rparr>]\<rparr>)"
  by (simp add: callToolHandler_def executeTool_def executeJourneyPlanningTool_def
      journeyPlanningToolRequest_def planJourney_def wire_waypoint_def axios_defs io_defs
      logger_defs Let_def orElse_def unwrap_def success_envelope_def upstream_ok_def idle_def
      example_server_def CaminoMCPServer_caminoApi_def new_CaminoApiService_def cafe_def)

section \<open>Failing upstream calls\<close>

text \<open>
  The three operations that report a failure with \<^verbatim>\<open>console.error\<close> return the
  failure envelope: \<^verbatim>\<open>success\<close> false, the upstream body's \<^verbatim>\<open>detail\<close> (when it
  is truthy) or else the error's message, and the fallback that echoes the request.
\<close>

lemma query_failure_envelope:
  "fst (executeQuery svc (\<lambda>r. HttpFail msg resp) request w) =
     Inr (JObj [(''success'', JBool False),
                (''error'', orElse (response_detail (AxiosError msg resp)) (JStr msg)),
                (''data'', JObj [(''query'', getProp request ''query''),
                                 (''results'', JArr []),
                                 (''total_found'', JNum 0),
                                 (''ai_ranked'', JBool False)])])"
  by (simp add: executeQuery_def axios_defs failure_envelope_def Let_def)

lemma console_operations_never_raise:
  "(\<exists>env. fst (executeQuery svc up request w) = Inr env)
   \<and> (\<exists>env. fst (executeSearch svc up request w) = Inr env)
   \<and> (\<exists>env. fst (calculateSpatialRelationship svc up request w) = Inr env)"
  by (simp add: executeQuery_def executeSearch_def calculateSpatialRelationship_def
      axios_defs Let_def split: http_result.splits)

text \<open>
  Claim C1 (the code departs from it). When the upstream call fails,
  \<open>getPlaceContext\<close>, \<open>planJourney\<close> and \<open>planRoute\<close> do not return an envelope:
  their \<^verbatim>\<open>catch\<close> blocks begin with \<^verbatim>\<open>Logger.error\<close>, a name the module never
  imports, and the \<^verbatim>\<open>ReferenceError\<close> leaves the operation.
\<close>

theorem logged_operations_raise:
  "fst (getPlaceContext svc (\<lambda>r. HttpFail msg resp) request w) =
     Inl (ReferenceError ''Logger is not defined'')
   \<and> fst (planJourney svc (\<lambda>r. HttpFail msg resp) request w) =
     Inl (ReferenceError ''Logger is not defined'')
   \<and> fst (planRoute svc (\<lambda>r. HttpFail msg resp) request w) =
     Inl (ReferenceError ''Logger is not defined'')"
  by (simp add: getPlaceContext_def planJourney_def planRoute_def catch_logged_def
      module_Logger_def axios_defs Let_def split: sum.splits)

text \<open>
  Claim C5 (the code departs from it, by the same missing import). A
  \<^verbatim>\<open>camino_route_planning\<close> invocation whose upstream call fails gives the host no
  envelope and no fallback: the stdio handler answers with an internal error.
\<close>

theorem route_failure_is_internal_error:
  "fst (callToolHandler svc (\<lambda>r. HttpFail msg resp) ''camino_route_planning'' args w) =
     Inl (McpError InternalError ''Tool execution failed: Logger is not defined'')"
  by (simp add: callToolHandler_def executeTool_def executeRoutePlanningTool_def
      planRoute_def catch_logged_def module_Logger_def axios_defs io_defs Let_def)

text \<open>
  Claim C8 (the code departs from it). With the debug flag off, a \<^verbatim>\<open>camino_query\<close>
  invocation whose upstream call fails writes a line to the side error channel:
  \<open>executeQuery\<close> reports the failure with \<^verbatim>\<open>console.error\<close>, which no flag guards.
\<close>

theorem query_failure_writes_stderr:
  "debugMode idle = False
   \<and> stderr (snd (callToolHandler example_server upstream_down ''camino_query''
                    (JObj [(''query'', JStr ''coffee'')]) idle)) =
       [''Query execution failed: Network Error'']
   \<and> stdout (snd (callToolHandler example_server upstream_down ''camino_query''
                    (JObj [(''query'', JStr ''coffee'')]) idle)) = []"
  by (simp add: callToolHandler_def executeTool_def executeQueryTool_def executeQuery_def
      console_error_def axios_defs upstream_down_def io_defs logger_defs Let_def idle_def)

text \<open>
  Claim C2 (the code departs from it). Waypoints in the advertised shape
  \<^verbatim>\<open>{latitude, longitude, purpose}\<close> reach the POST of \<^verbatim>\<open>/journey\<close> in order and
  with their purposes, next to the constraints, but without coordinates:
  \<open>planJourney\<close> reads \<^verbatim>\<open>wp.lat\<close> and \<^verbatim>\<open>wp.lon\<close>, which such a waypoint does
  not have.
\<close>

theorem journey_coordinates_lost:
  "map body (calls (snd (callToolHandler example_server upstream_ok ''camino_journey_planning''
       (JObj [(''waypoints'', JArr [cafe, office]), (''transport_mode'', JStr ''walking''),
              (''time_budget'', JStr ''2 hours'')]) idle))) =
   [JObj [(''waypoints'',
            JArr [JObj [(''lat'', JUndefined), (''lon'', JUndefined),
                        (''purpose'', JStr ''coffee'')],
                  JObj [(''lat'', JUndefined), (''lon'', JUndefined),
                        (''purpose'', JStr ''meeting'')]]),
          (''constraints'',
            JObj [(''transport'', JStr ''walking''), (''time_budget'', JStr ''2 hours'')])]]"
  by (simp add: callToolHandler_def executeTool_def executeJourneyPlanningTool_def
      journeyPlanningToolRequest_def planJourney_def wire_waypoint_def axios_defs io_defs
      logger_defs Let_def orElse_def unwrap_def success_envelope_def upstream_ok_def idle_def
      cafe_def office_def)

end
